theory Spec2Isabelle
  imports Complex_Main "HOL-Library.Word"
begin

unbundle bit_operations_syntax

section \<open>Numbers\<close>

text \<open>
  A JavaScript number is an IEEE 754 double: 53 significant bits, and every arithmetic
  operation gives the exact result rounded to the nearest double, ties to the even
  one. The model keeps a number as the real it denotes; \<open>fl\<close> is the rounding, and
  every operation of the source is the exact operation followed by \<open>fl\<close>. The range
  of the exponent is not bounded in the model: overflow to an infinity, the subnormal
  numbers, NaN, the sign of zero and a division by zero are outside it.
\<close>

definition round_even :: "real \<Rightarrow> int" where
  "round_even y =
     (let f = \<lfloor>y\<rfloor> in
      if y - of_int f < 1/2 then f
      else if 1/2 < y - of_int f then f + 1
      else if even f then f else f + 1)"

definition fl :: "real \<Rightarrow> real" where
  "fl x =
     (if x = 0 then 0
      else let e = \<lfloor>log 2 \<bar>x\<bar>\<rfloor> - 52
           in of_int (round_even (x / 2 powi e)) * 2 powi e)"

section \<open>Vectors\<close>

text \<open>
  Modelled from the spec: \<^verbatim>\<open>Maths/math.vector\<close> is not among the sources. The
  coordinator uses six operations of \<^verbatim>\<open>Vector3\<close>; the spec gives their meaning
  (per-axis division and multiplication by the radius, \<open>position + velocity\<close>, the
  magnitude of the velocity). Each of them works on doubles. A vector object that the
  source updates in place is a value that the model returns.
\<close>

datatype vector3 = Vector3 (vec_x: real) (vec_y: real) (vec_z: real)

definition divideToRef :: "vector3 \<Rightarrow> vector3 \<Rightarrow> vector3" where
  "divideToRef a b =
     Vector3 (fl (vec_x a / vec_x b)) (fl (vec_y a / vec_y b)) (fl (vec_z a / vec_z b))"

definition multiplyInPlace :: "vector3 \<Rightarrow> vector3 \<Rightarrow> vector3" where
  "multiplyInPlace a b =
     Vector3 (fl (vec_x a * vec_x b)) (fl (vec_y a * vec_y b)) (fl (vec_z a * vec_z b))"

definition addToRef :: "vector3 \<Rightarrow> vector3 \<Rightarrow> vector3" where
  "addToRef a b =
     Vector3 (fl (vec_x a + vec_x b)) (fl (vec_y a + vec_y b)) (fl (vec_z a + vec_z b))"


definition setAll :: "real \<Rightarrow> vector3" where
  "setAll v = Vector3 v v v"

definition length_v3 :: "vector3 \<Rightarrow> real" where
  "length_v3 a =
     fl (sqrt (fl (fl (fl (vec_x a * vec_x a) + fl (vec_y a * vec_y a))
                 + fl (vec_z a * vec_z a))))"

text \<open>The components of a vector are doubles.\<close>

definition doubles :: "vector3 \<Rightarrow> bool" where
  "doubles a \<longleftrightarrow> fl (vec_x a) = vec_x a \<and> fl (vec_y a) = vec_y a \<and> fl (vec_z a) = vec_z a"

section \<open>Meshes, the collider and its collaborators\<close>

text \<open>
  Modelled from the spec: \<^verbatim>\<open>Meshes/abstractMesh\<close> is not among the sources. A mesh
  carries the members that \<^verbatim>\<open>_collideWithWorld\<close> reads (section 6 of the spec). \<open>uniqueId\<close> stands for the identity of the object
  (the source compares references with \<^verbatim>\<open>mesh !== excludedMesh\<close>); \<open>subMeshes\<close> is
  \<open>None\<close> when the member is unset and \<open>Some g\<close>, whatever geometry \<open>g\<close> it holds,
  when it is an array (an array is truthy in JavaScript, also when empty). The two
  bit masks are the 32-bit integers that the operator \<^verbatim>\<open>&\<close> works on.
\<close>

datatype 'g mesh = Mesh
  (uniqueId: nat)
  (isEnabled: bool)
  (checkCollisions: bool)
  (subMeshes: "'g option")
  (collisionGroup: "32 word")
  (mesh_collisionMask: "32 word")
  (surroundingMeshes: "'g mesh list option")

text \<open>
  Modelled from the spec: \<^verbatim>\<open>Collisions/collider\<close> is not among the sources. The
  collider has the fields that the coordinator reads and writes; the state that the
  narrow phase owns (\<open>collisionFound\<close>, \<open>collidedMesh\<close> and the internal
  nearest-intersection bookkeeping, of any type \<open>'k\<close>) is a record of its own.
\<close>

record ('g, 'k) narrow_state =
  collisionFound :: bool
  collidedMesh :: "'g mesh option"
  bookkeeping :: 'k

record ('g, 'k) collider =
  radius :: vector3
  retry :: int
  initialVelocity :: vector3
  initialPosition :: vector3
  collisionMask :: "32 word"
  narrow :: "('g, 'k) narrow_state"

text \<open>
  The operations of the collaborators are parameters. Following the spec,
  \<^verbatim>\<open>_initialize\<close> resets and \<^verbatim>\<open>_checkCollision\<close> updates the narrow-phase state of
  the collider; \<^verbatim>\<open>_getResponse\<close> receives the position and the velocity objects and
  may update both in place, and the narrow-phase state with them. Each of them reads
  the whole collider. \<open>CollisionsEpsilon\<close> is the static constant of
  \<^verbatim>\<open>AbstractEngine\<close>.
\<close>

record ('g, 'k) collaborators =
  CollisionsEpsilon :: real
  initialize :: "vector3 \<Rightarrow> vector3 \<Rightarrow> real \<Rightarrow> ('g, 'k) collider \<Rightarrow> ('g, 'k) narrow_state"
  checkCollision :: "'g mesh \<Rightarrow> ('g, 'k) collider \<Rightarrow> ('g, 'k) narrow_state"
  getResponse :: "vector3 \<Rightarrow> vector3 \<Rightarrow> bool \<Rightarrow> ('g, 'k) collider
    \<Rightarrow> vector3 \<times> vector3 \<times> ('g, 'k) narrow_state"

text \<open>The calls that the coordinator makes to its collaborators, in order.\<close>

datatype 'g call =
  Initialize vector3 vector3 real
  | CheckCollision "'g mesh"
  | GetResponse vector3 vector3 bool
  | OnNewPosition int vector3 "'g mesh option"

fun is_Initialize :: "'g call \<Rightarrow> bool" where
  "is_Initialize (Initialize p v e) = True"
| "is_Initialize c = False"

fun is_CheckCollision :: "'g call \<Rightarrow> bool" where
  "is_CheckCollision (CheckCollision m) = True"
| "is_CheckCollision c = False"

fun is_OnNewPosition :: "'g call \<Rightarrow> bool" where
  "is_OnNewPosition (OnNewPosition i p m) = True"
| "is_OnNewPosition c = False"

text \<open>
  The objects that one resolution works on: the three scratch vectors of the
  coordinator, which \<^verbatim>\<open>_collideWithWorld\<close> receives as \<open>position\<close>, \<open>velocity\<close> and
  \<open>finalPosition\<close>, the collider of the caller, and the calls made so far.
\<close>

record ('g, 'k) sweep =
  position :: vector3
  velocity :: vector3
  finalPosition :: vector3
  collider :: "('g, 'k) collider"
  calls :: "'g call list"

section \<open>The coordinator\<close>

text \<open>Lines 89 to 94: the loop over the candidate meshes.\<close>

fun meshLoop :: "('g, 'k) collaborators \<Rightarrow> 'g mesh option \<Rightarrow> 32 word \<Rightarrow> 'g mesh list
    \<Rightarrow> ('g, 'k) sweep \<Rightarrow> ('g, 'k) sweep" where
  "meshLoop env excludedMesh effMask [] s = s"
| "meshLoop env excludedMesh effMask (mesh # rest) s =
     meshLoop env excludedMesh effMask rest
       (if isEnabled mesh \<and> checkCollisions mesh \<and> subMeshes mesh \<noteq> None
           \<and> (case excludedMesh of None \<Rightarrow> True | Some e \<Rightarrow> uniqueId mesh \<noteq> uniqueId e)
           \<and> effMask AND collisionGroup mesh \<noteq> 0
        then s\<lparr>collider := (collider s)\<lparr>narrow := checkCollision env mesh (collider s)\<rparr>,
               calls := calls s @ [CheckCollision mesh]\<rparr>
        else s)"

text \<open>Lines 81 to 94: the effective mask, the reset of the collider, the candidates, the loop.\<close>

definition narrowPhase :: "('g, 'k) collaborators \<Rightarrow> 'g mesh list \<Rightarrow> 'g mesh option
    \<Rightarrow> ('g, 'k) sweep \<Rightarrow> ('g, 'k) sweep" where
  "narrowPhase env scene excludedMesh s =
     (let closeDistance = fl (CollisionsEpsilon env * 10);
          effMask = (case excludedMesh of Some e \<Rightarrow> mesh_collisionMask e
                     | None \<Rightarrow> collisionMask (collider s));
          s1 = s\<lparr>collider := (collider s)\<lparr>narrow :=
                     initialize env (position s) (velocity s) closeDistance (collider s)\<rparr>,
                 calls := calls s @ [Initialize (position s) (velocity s) closeDistance]\<rparr>;
          meshes = (case excludedMesh of
                      Some e \<Rightarrow> (case surroundingMeshes e of Some l \<Rightarrow> l | None \<Rightarrow> scene)
                    | None \<Rightarrow> scene)
      in meshLoop env excludedMesh effMask meshes s1)"

text \<open>
  Lines 101 to 107: the response. The fields \<open>initialPosition\<close> and
  \<open>initialVelocity\<close> of the collider hold references to the position and the velocity
  objects (lines 47 and 48), so they follow every update in place.
\<close>

definition response :: "('g, 'k) collaborators \<Rightarrow> bool \<Rightarrow> ('g, 'k) sweep \<Rightarrow> ('g, 'k) sweep" where
  "response env slideOnCollide s =
     (if vec_x (velocity s) \<noteq> 0 \<or> vec_y (velocity s) \<noteq> 0 \<or> vec_z (velocity s) \<noteq> 0
      then (case getResponse env (position s) (velocity s) slideOnCollide (collider s) of
              (p, v, n) \<Rightarrow>
                let v' = (if \<not> slideOnCollide then setAll 0 else v)
                in s\<lparr>position := p, velocity := v',
                     collider := (collider s)\<lparr>narrow := n, initialPosition := p,
                                               initialVelocity := v'\<rparr>,
                     calls := calls s @ [GetResponse (position s) (velocity s) slideOnCollide]\<rparr>)
      else s)"

lemma retry_meshLoop [simp]:
  "retry (collider (meshLoop env excludedMesh effMask ms s)) = retry (collider s)"
  by (induction ms arbitrary: s) simp_all

lemma retry_narrowPhase [simp]:
  "retry (collider (narrowPhase env scene excludedMesh s)) = retry (collider s)"
  by (simp add: narrowPhase_def Let_def)

lemma retry_response [simp]:
  "retry (collider (response env slideOnCollide s)) = retry (collider s)"
  by (simp add: response_def Let_def split: prod.splits)

text \<open>
  Lines 64 to 116. The retry count and the retry budget are integers. The recursion
  stops because the narrow phase and the response leave \<open>retry\<close> alone and every
  recursive call follows an increment by one.
\<close>

function collideWithWorld :: "('g, 'k) collaborators \<Rightarrow> 'g mesh list \<Rightarrow> int \<Rightarrow> bool
    \<Rightarrow> 'g mesh option \<Rightarrow> ('g, 'k) sweep \<Rightarrow> ('g, 'k) sweep" where
  "collideWithWorld env scene maximumRetry slideOnCollide excludedMesh s =
     (let closeDistance = fl (CollisionsEpsilon env * 10) in
      if retry (collider s) \<ge> maximumRetry then s\<lparr>finalPosition := position s\<rparr>
      else
        let s1 = narrowPhase env scene excludedMesh s in
        if \<not> collisionFound (narrow (collider s1))
        then s1\<lparr>finalPosition := addToRef (position s1) (velocity s1)\<rparr>
        else
          let s2 = response env slideOnCollide s1 in
          if length_v3 (velocity s2) \<le> closeDistance then s2\<lparr>finalPosition := position s2\<rparr>
          else collideWithWorld env scene maximumRetry slideOnCollide excludedMesh
                 (s2\<lparr>collider := (collider s2)\<lparr>retry := retry (collider s2) + 1\<rparr>\<rparr>))"
  by pat_completeness auto
termination
  by (relation "measure (\<lambda>(env, scene, maximumRetry, slideOnCollide, excludedMesh, s).
        nat (maximumRetry - retry (collider s)))") auto

declare collideWithWorld.simps [simp del]

text \<open>
  Lines 43 to 48: the state that \<^verbatim>\<open>getNewPosition\<close> hands to the sweep. \<open>scratch\<close>
  is what \<^verbatim>\<open>this._finalPosition\<close> held before the call.
\<close>

definition startSweep :: "vector3 \<Rightarrow> vector3 \<Rightarrow> vector3 \<Rightarrow> ('g, 'k) collider
    \<Rightarrow> ('g, 'k) sweep" where
  "startSweep scratch position0 displacement c =
     (let scaledPosition = divideToRef position0 (radius c);
          scaledVelocity = divideToRef displacement (radius c)
      in \<lparr>position = scaledPosition, velocity = scaledVelocity, finalPosition = scratch,
          collider = c\<lparr>narrow := (narrow c)\<lparr>collidedMesh := None\<rparr>, retry := 0,
                       initialVelocity := scaledVelocity, initialPosition := scaledPosition\<rparr>,
          calls = []\<rparr>)"

text \<open>
  Lines 33 to 54. The result holds the three scratch vectors and the collider as the
  call leaves them, and the calls made, the callback last.
\<close>

definition getNewPosition :: "('g, 'k) collaborators \<Rightarrow> 'g mesh list \<Rightarrow> vector3
    \<Rightarrow> vector3 \<Rightarrow> vector3 \<Rightarrow> ('g, 'k) collider \<Rightarrow> int \<Rightarrow> 'g mesh option \<Rightarrow> int \<Rightarrow> bool
    \<Rightarrow> ('g, 'k) sweep" where
  "getNewPosition env scene scratch position0 displacement c maximumRetry excludedMesh
      collisionIndex slideOnCollide =
     (let s = collideWithWorld env scene maximumRetry slideOnCollide excludedMesh
                (startSweep scratch position0 displacement c);
          final = multiplyInPlace (finalPosition s) (radius (collider s))
      in s\<lparr>finalPosition := final,
           calls := calls s @ [OnNewPosition collisionIndex final
                                 (collidedMesh (narrow (collider s)))]\<rparr>)"

section \<open>The words of the spec\<close>

text \<open>The number of sweep iterations: each one resets the collider once.\<close>

definition sweeps :: "'g call list \<Rightarrow> nat" where
  "sweeps cs = length (filter is_Initialize cs)"

text \<open>
  The candidate set, the effective mask and the test of a candidate, as the spec words
  them (section 4.1, steps 2, 4 and 5).
\<close>

definition spec_effectiveMask :: "'g mesh option \<Rightarrow> ('g, 'k) collider \<Rightarrow> 32 word" where
  "spec_effectiveMask excludedMesh c =
     (case excludedMesh of None \<Rightarrow> collisionMask c | Some e \<Rightarrow> mesh_collisionMask e)"

definition spec_candidates :: "'g mesh option \<Rightarrow> 'g mesh list \<Rightarrow> 'g mesh list" where
  "spec_candidates excludedMesh scene =
     (case excludedMesh of
        None \<Rightarrow> scene
      | Some e \<Rightarrow> (case surroundingMeshes e of None \<Rightarrow> scene | Some l \<Rightarrow> l))"

definition is_excluded :: "'g mesh option \<Rightarrow> 'g mesh \<Rightarrow> bool" where
  "is_excluded excludedMesh m =
     (case excludedMesh of None \<Rightarrow> False | Some e \<Rightarrow> uniqueId m = uniqueId e)"

definition spec_tested :: "'g mesh option \<Rightarrow> ('g, 'k) collider \<Rightarrow> 'g mesh \<Rightarrow> bool" where
  "spec_tested excludedMesh c m \<longleftrightarrow>
     isEnabled m \<and> checkCollisions m \<and> subMeshes m \<noteq> None \<and> \<not> is_excluded excludedMesh m
     \<and> spec_effectiveMask excludedMesh c AND collisionGroup m \<noteq> 0"

text \<open>
  The state that one iteration of the sweep hands to the next: \<open>None\<close> when the
  iteration is the last one, and the argument of the recursive call of line 115
  otherwise. \<open>iteration k\<close> is the state at the start of iteration \<open>k\<close>, counted from 0.
\<close>

definition nextIteration :: "('g, 'k) collaborators \<Rightarrow> 'g mesh list \<Rightarrow> int \<Rightarrow> bool
    \<Rightarrow> 'g mesh option \<Rightarrow> ('g, 'k) sweep \<Rightarrow> ('g, 'k) sweep option" where
  "nextIteration env scene maximumRetry slideOnCollide excludedMesh s =
     (if retry (collider s) \<ge> maximumRetry then None
      else
        let s1 = narrowPhase env scene excludedMesh s in
        if \<not> collisionFound (narrow (collider s1)) then None
        else
          let s2 = response env slideOnCollide s1 in
          if length_v3 (velocity s2) \<le> fl (CollisionsEpsilon env * 10) then None
          else Some (s2\<lparr>collider := (collider s2)\<lparr>retry := retry (collider s2) + 1\<rparr>\<rparr>))"

fun iteration :: "('g, 'k) collaborators \<Rightarrow> 'g mesh list \<Rightarrow> int \<Rightarrow> bool
    \<Rightarrow> 'g mesh option \<Rightarrow> nat \<Rightarrow> ('g, 'k) sweep \<Rightarrow> ('g, 'k) sweep option" where
  "iteration env scene maximumRetry slideOnCollide excludedMesh 0 s = Some s"
| "iteration env scene maximumRetry slideOnCollide excludedMesh (Suc k) s =
     (case nextIteration env scene maximumRetry slideOnCollide excludedMesh s of
        None \<Rightarrow> None
      | Some s' \<Rightarrow> iteration env scene maximumRetry slideOnCollide excludedMesh k s')"

text \<open>
  The tests of a sweep iteration report no collision: they leave \<open>collisionFound\<close>
  false and the collided mesh of the collider as it was.
\<close>

definition reports_no_collision :: "('g, 'k) collaborators \<Rightarrow> 'g mesh list \<Rightarrow> 'g mesh option
    \<Rightarrow> ('g, 'k) sweep \<Rightarrow> bool" where
  "reports_no_collision env scene excludedMesh s \<longleftrightarrow>
     \<not> collisionFound (narrow (collider (narrowPhase env scene excludedMesh s)))
     \<and> collidedMesh (narrow (collider (narrowPhase env scene excludedMesh s)))
       = collidedMesh (narrow (collider s))"

section \<open>Collaborators for the examples\<close>

text \<open>
  Modelled from the spec: the collider's reset, test and response are not among the
  sources, and the examples need a collider and meshes to run the coordinator on. Here the
  geometry of a mesh is a script: \<open>touches\<close> tells whether the body, at a position
  and with a velocity, touches the mesh, and \<open>responds\<close> gives the position and the
  velocity that the response leaves, from the close distance, the slide flag, the
  position and the velocity. The reset of the collider records the position, the
  velocity and the close distance and clears the flag; the test of a mesh that the
  body touches sets the flag and the collided mesh and records the script; the response
  runs the script recorded last. Inside the scripts the arithmetic is exact; on the
  examples every value that they produce is a double.
\<close>

record script =
  touches :: "vector3 \<Rightarrow> vector3 \<Rightarrow> bool"
  responds :: "real \<Rightarrow> bool \<Rightarrow> vector3 \<Rightarrow> vector3 \<Rightarrow> vector3 \<times> vector3"

record probe =
  basePoint :: vector3
  sweepVelocity :: vector3
  epsilon :: real
  hit :: "script option"

definition scripted_initialize :: "vector3 \<Rightarrow> vector3 \<Rightarrow> real \<Rightarrow> (script, probe) collider
    \<Rightarrow> (script, probe) narrow_state" where
  "scripted_initialize p v e c =
     \<lparr>collisionFound = False, collidedMesh = collidedMesh (narrow c),
      bookkeeping = \<lparr>basePoint = p, sweepVelocity = v, epsilon = e, hit = None\<rparr>\<rparr>"

definition scripted_checkCollision :: "script mesh \<Rightarrow> (script, probe) collider
    \<Rightarrow> (script, probe) narrow_state" where
  "scripted_checkCollision m c =
     (case subMeshes m of
        None \<Rightarrow> narrow c
      | Some g \<Rightarrow>
          let b = bookkeeping (narrow c) in
          if touches g (basePoint b) (sweepVelocity b)
          then \<lparr>collisionFound = True, collidedMesh = Some m, bookkeeping = b\<lparr>hit := Some g\<rparr>\<rparr>
          else narrow c)"

definition scripted_getResponse :: "vector3 \<Rightarrow> vector3 \<Rightarrow> bool \<Rightarrow> (script, probe) collider
    \<Rightarrow> vector3 \<times> vector3 \<times> (script, probe) narrow_state" where
  "scripted_getResponse p v slide c =
     (case hit (bookkeeping (narrow c)) of
        None \<Rightarrow> (p, v, narrow c)
      | Some g \<Rightarrow>
          (case responds g (epsilon (bookkeeping (narrow c))) slide p v of
             (p', v') \<Rightarrow> (p', v', narrow c)))"

definition scripted :: "real \<Rightarrow> (script, probe) collaborators" where
  "scripted eps =
     \<lparr>CollisionsEpsilon = eps, initialize = scripted_initialize,
      checkCollision = scripted_checkCollision, getResponse = scripted_getResponse\<rparr>"

text \<open>
  Modelled from the spec: the narrow phase of a mesh and the response of the collider
  are not among the sources. This script is level ground at height 0 under a body that
  is the unit sphere, after sections 4.1 and 8 of the spec. The body touches the ground
  when it moves down and meets it within the step; \<open>contact_time\<close> is the part of
  the step up to the first contact. The response moves the body along its velocity to
  the point of first contact. With sliding it also keeps the body off the ground by the
  close distance and leaves, as the velocity, the rest of the motion projected onto the
  ground; without sliding it leaves the part of the motion up to the contact.
\<close>

definition contact_time :: "vector3 \<Rightarrow> vector3 \<Rightarrow> real" where
  "contact_time p v = max 0 ((vec_y p - 1) / (- vec_y v))"

definition level_ground :: script where
  "level_ground =
     \<lparr>touches = (\<lambda>p v. vec_y v < 0 \<and> (vec_y p - 1) / (- vec_y v) \<le> 1
                      \<and> 0 \<le> (vec_y p + 1) / (- vec_y v)),
      responds = (\<lambda>e slide p v.
        let t = contact_time p v in
        if slide
        then (Vector3 (vec_x p + t * vec_x v) (vec_y p + t * vec_y v + e) (vec_z p + t * vec_z v),
              Vector3 ((1 - t) * vec_x v) 0 ((1 - t) * vec_z v))
        else (Vector3 (vec_x p + t * vec_x v) (vec_y p + t * vec_y v) (vec_z p + t * vec_z v),
              Vector3 (t * vec_x v) (t * vec_y v) (t * vec_z v)))\<rparr>"



text \<open>
  A mesh with the default group and mask and a script for its geometry, and a body of
  a given radius with the default mask of a collider.
\<close>

definition solid :: "script \<Rightarrow> script mesh" where
  "solid g = Mesh 1 True True (Some g) (- 1) (- 1) None"

definition body :: "vector3 \<Rightarrow> (script, probe) collider" where
  "body r = \<lparr>radius = r, retry = 0, initialVelocity = Vector3 0 0 0,
             initialPosition = Vector3 0 0 0, collisionMask = - 1,
             narrow = \<lparr>collisionFound = False, collidedMesh = None,
                       bookkeeping = \<lparr>basePoint = Vector3 0 0 0, sweepVelocity = Vector3 0 0 0,
                                      epsilon = 0, hit = None\<rparr>\<rparr>\<rparr>"

section \<open>Properties\<close>

subsection \<open>Rounding\<close>

lemma round_even_of_int [simp]: "round_even (of_int n) = n"
  by (simp add: round_even_def)

lemma round_even_bounds: "\<lfloor>y\<rfloor> \<le> round_even y \<and> round_even y \<le> \<lfloor>y\<rfloor> + 1"
  by (simp add: round_even_def Let_def)

lemma fl_zero [simp]: "fl 0 = 0"
  by (simp add: fl_def)

lemma floor_log2_eq:
  assumes "2 powi k \<le> \<bar>x\<bar>" and "\<bar>x\<bar> < 2 powi (k + 1)"
  shows "\<lfloor>log 2 \<bar>x\<bar>\<rfloor> = k"
proof -
  have "0 < \<bar>x\<bar>" using assms(1) by (smt (verit) zero_less_power_int zero_less_numeral)
  moreover have "2 powr (real_of_int k + 1) = 2 powi (k + 1)"
    using powr_real_of_int' [of 2 "k + 1"] by simp
  ultimately show ?thesis
    using assms by (simp add: floor_log_eq_powr_iff powr_real_of_int')
qed

lemma fl_bracket:
  assumes "2 powi k \<le> \<bar>x\<bar>" and "\<bar>x\<bar> < 2 powi (k + 1)"
  shows "fl x = of_int (round_even (x / 2 powi (k - 52))) * 2 powi (k - 52)"
proof -
  have "x \<noteq> 0" using assms(1) by (smt (verit) zero_less_power_int zero_less_numeral)
  then show ?thesis
    by (simp add: fl_def floor_log2_eq [OF assms] Let_def)
qed

lemma fl_49: "fl (1/49) = 5882252574524729 / 2 ^ 58"
  using fl_bracket [of "- 6" "1/49"]
  by (simp add: round_even_def power_int_minus)

lemma fl_49_back: "fl (5882252574524729 / 2 ^ 58 * 49) = 9007199254740991 / 2 ^ 53"
  using fl_bracket [of "- 1" "5882252574524729 / 2 ^ 58 * 49"]
  by (simp add: round_even_def power_int_minus)

lemma round_trip_49: "fl (fl (1/49) * 49) = 9007199254740991 / 2 ^ 53"
  unfolding fl_49 by (rule fl_49_back)

lemma fl_dyadic:
  assumes "\<bar>n\<bar> < 2 ^ 53"
  shows "fl (of_int n * 2 powi k) = of_int n * 2 powi k"
proof (cases "n = 0")
  case True
  then show ?thesis by simp
next
  case False
  define j where "j = \<lfloor>log 2 \<bar>of_int n :: real\<bar>\<rfloor>"
  have n0: "0 < \<bar>of_int n :: real\<bar>" using False by simp
  have lo: "2 powi j \<le> \<bar>of_int n :: real\<bar>" and hi: "\<bar>of_int n :: real\<bar> < 2 powi (j + 1)"
    using floor_log_eq_powr_iff [of "\<bar>of_int n :: real\<bar>" 2 j] n0
      powr_real_of_int' [of 2 j] powr_real_of_int' [of 2 "j + 1"]
    by (simp_all add: j_def)
  have "\<bar>of_int n :: real\<bar> < 2 powi 53"
    using assms by (simp flip: of_int_abs)
  with lo have "(2::real) powi j < 2 powi 53" by linarith
  then have "j < 53"
    by (intro power_int_le_imp_less_exp [of "2::real"]) simp_all
  then have j52: "j \<le> 52"
    by simp
  let ?x = "of_int n * (2::real) powi k"
  have b1: "2 powi (j + k) \<le> \<bar>?x\<bar>"
    using lo by (simp add: abs_mult power_int_add)
  have b2: "\<bar>?x\<bar> < 2 powi (j + k + 1)"
    using hi by (simp add: abs_mult power_int_add)
  have "?x / 2 powi (j + k - 52) = of_int n * 2 powi (52 - j)"
    by (simp add: power_int_diff power_int_add field_simps)
  also have "\<dots> = of_int (n * 2 ^ nat (52 - j))"
    using j52 by (simp add: power_int_def)
  finally have q: "?x / 2 powi (j + k - 52) = of_int (n * 2 ^ nat (52 - j))" .
  have "fl ?x = of_int (n * 2 ^ nat (52 - j)) * 2 powi (j + k - 52)"
    unfolding fl_bracket [OF b1 b2] q by (simp only: round_even_of_int)
  also have "\<dots> = ?x / 2 powi (j + k - 52) * 2 powi (j + k - 52)"
    by (simp only: q)
  also have "\<dots> = ?x"
    by simp
  finally show ?thesis .
qed

lemma fl_of_int: "\<bar>n\<bar> < 2 ^ 53 \<Longrightarrow> fl (of_int n) = of_int n"
  using fl_dyadic [of n 0] by simp

lemma fl_numeral [simp]: "(numeral a :: int) < 2 ^ 53 \<Longrightarrow> fl (numeral a) = numeral a"
  using fl_of_int [of "numeral a"] by simp

lemma fl_neg_numeral [simp]:
  "(numeral a :: int) < 2 ^ 53 \<Longrightarrow> fl (- numeral a) = - numeral a"
  using fl_of_int [of "- numeral a"] by simp

lemma fl_one [simp]: "fl 1 = 1"
  using fl_of_int [of 1] by simp

lemma fl_neg_one [simp]: "fl (- 1) = - 1"
  using fl_of_int [of "- 1"] by simp

lemma fl_scaled:
  assumes "x \<noteq> 0"
  obtains e where "fl x = of_int (round_even (x / 2 powi e)) * 2 powi e"
    and "\<bar>x / 2 powi e\<bar> < 2 ^ 53"
proof -
  define j where "j = \<lfloor>log 2 \<bar>x\<bar>\<rfloor>"
  have "\<bar>x\<bar> < 2 powi (j + 1)"
    using floor_log_eq_powr_iff [of "\<bar>x\<bar>" 2 j] assms powr_real_of_int' [of 2 "j + 1"]
    by (simp add: j_def)
  then have "\<bar>x\<bar> / 2 powi (j - 52) < 2 powi (j + 1) / 2 powi (j - 52)"
    by (simp add: divide_strict_right_mono)
  also have "(2::real) powi (j + 1) / 2 powi (j - 52) = 2 powi 53"
    by (simp flip: power_int_diff)
  finally have "\<bar>x / 2 powi (j - 52)\<bar> < 2 ^ 53"
    by (simp add: abs_divide)
  moreover have "fl x = of_int (round_even (x / 2 powi (j - 52))) * 2 powi (j - 52)"
    using assms by (simp add: fl_def j_def Let_def)
  ultimately show ?thesis by (rule that [rotated])
qed

lemma fl_idem [simp]: "fl (fl x) = fl x"
proof (cases "x = 0")
  case True
  then show ?thesis by simp
next
  case False
  then obtain e where e: "fl x = of_int (round_even (x / 2 powi e)) * 2 powi e"
    and b: "\<bar>x / 2 powi e\<bar> < 2 ^ 53"
    by (rule fl_scaled)
  let ?y = "x / 2 powi e"
  let ?N = "round_even ?y"
  have "- (2 ^ 53) < ?y" "?y < 2 ^ 53"
    using b by (simp_all only: abs_less_iff) linarith+
  then have "- (2 ^ 53) \<le> \<lfloor>?y\<rfloor>" "\<lfloor>?y\<rfloor> < 2 ^ 53"
    by (simp_all add: le_floor_iff floor_less_iff)
  with round_even_bounds [of ?y] have N: "\<bar>?N\<bar> \<le> 2 ^ 53"
    by linarith
  show ?thesis
  proof (cases "\<bar>?N\<bar> < 2 ^ 53")
    case True
    then show ?thesis
      unfolding e by (rule fl_dyadic)
  next
    case False
    with N consider "?N = 2 ^ 53" | "?N = - (2 ^ 53)"
      by linarith
    then show ?thesis
    proof cases
      case 1
      have "of_int ?N * (2::real) powi e = of_int (2 ^ 52) * 2 powi (e + 1)"
        unfolding 1 by (simp add: power_int_add)
      then show ?thesis
        unfolding e using fl_dyadic [of "2 ^ 52" "e + 1"] by simp
    next
      case 2
      have "of_int ?N * (2::real) powi e = of_int (- (2 ^ 52)) * 2 powi (e + 1)"
        unfolding 2 by (simp add: power_int_add)
      then show ?thesis
        unfolding e using fl_dyadic [of "- (2 ^ 52)" "e + 1"] by simp
    qed
  qed
qed

lemma fl_nonneg: "0 \<le> x \<Longrightarrow> 0 \<le> fl x"
proof (cases "x = 0")
  case True
  then show ?thesis by simp
next
  case False
  assume "0 \<le> x"
  from False obtain e where e: "fl x = of_int (round_even (x / 2 powi e)) * 2 powi e"
    by (rule fl_scaled)
  have "0 \<le> x / 2 powi e"
    using \<open>0 \<le> x\<close> by simp
  then have "0 \<le> \<lfloor>x / 2 powi e\<rfloor>"
    by simp
  with round_even_bounds [of "x / 2 powi e"] have "0 \<le> round_even (x / 2 powi e)"
    by linarith
  then show ?thesis
    unfolding e by simp
qed

lemma fl_half_steps [simp]:
  "(numeral a :: int) < 2 ^ 53 \<Longrightarrow> fl (numeral a / 512) = numeral a / 512"
  "(numeral a :: int) < 2 ^ 53 \<Longrightarrow> fl (numeral a / 1024) = numeral a / 1024"
  using fl_dyadic [of "numeral a" "- 9"] fl_dyadic [of "numeral a" "- 10"]
  by (simp_all add: power_int_minus field_simps)

subsection \<open>Vectors\<close>

lemma length_v3_zero [simp]: "length_v3 (Vector3 0 0 0) = 0"
  by (simp add: length_v3_def)

lemma length_v3_nonneg [simp]: "0 \<le> length_v3 a"
  by (simp add: length_v3_def fl_nonneg)

lemma divideToRef_zero [simp]: "divideToRef (Vector3 0 0 0) r = Vector3 0 0 0"
  by (simp add: divideToRef_def)

lemma doubles_divideToRef [simp]: "doubles (divideToRef a b)"
  by (simp add: doubles_def divideToRef_def)


lemma divideToRef_unit: "doubles a \<Longrightarrow> divideToRef a (Vector3 1 1 1) = a"
  by (cases a) (simp add: divideToRef_def doubles_def)

lemma multiplyInPlace_unit: "doubles a \<Longrightarrow> multiplyInPlace a (Vector3 1 1 1) = a"
  by (cases a) (simp add: multiplyInPlace_def doubles_def)

lemma multiplyInPlace_addToRef_unit:
  "multiplyInPlace (addToRef a b) (Vector3 1 1 1) = addToRef a b"
  by (simp add: multiplyInPlace_def addToRef_def)

lemma round_trip_49_vec:
  "multiplyInPlace (divideToRef (Vector3 1 0 0) (Vector3 49 1 1)) (Vector3 49 1 1)
     = Vector3 (9007199254740991 / 2 ^ 53) 0 0"
  using round_trip_49 by (simp add: multiplyInPlace_def divideToRef_def)

lemma sqrt_100 [simp]: "sqrt 100 = 10"
  by (rule real_sqrt_unique) simp_all

subsection \<open>What a sweep iteration leaves alone\<close>

lemma meshLoop_frame [simp]:
  "position (meshLoop env excludedMesh effMask ms s) = position s"
  "velocity (meshLoop env excludedMesh effMask ms s) = velocity s"
  "finalPosition (meshLoop env excludedMesh effMask ms s) = finalPosition s"
  "radius (collider (meshLoop env excludedMesh effMask ms s)) = radius (collider s)"
  "collisionMask (collider (meshLoop env excludedMesh effMask ms s)) = collisionMask (collider s)"
  by (induction ms arbitrary: s) simp_all

lemma meshLoop_calls:
  "calls (meshLoop env excludedMesh (spec_effectiveMask excludedMesh c) ms s)
     = calls s @ map CheckCollision (filter (spec_tested excludedMesh c) ms)"
  by (induction ms arbitrary: s)
     (simp_all add: spec_tested_def is_excluded_def split: option.splits)


lemma narrowPhase_frame [simp]:
  "position (narrowPhase env scene excludedMesh s) = position s"
  "velocity (narrowPhase env scene excludedMesh s) = velocity s"
  "finalPosition (narrowPhase env scene excludedMesh s) = finalPosition s"
  "radius (collider (narrowPhase env scene excludedMesh s)) = radius (collider s)"
  "collisionMask (collider (narrowPhase env scene excludedMesh s)) = collisionMask (collider s)"
  by (simp_all add: narrowPhase_def Let_def)

lemma narrowPhase_calls:
  "calls (narrowPhase env scene excludedMesh s)
     = calls s @ Initialize (position s) (velocity s) (fl (CollisionsEpsilon env * 10))
         # map CheckCollision
             (filter (spec_tested excludedMesh (collider s)) (spec_candidates excludedMesh scene))"
proof -
  have m: "(case excludedMesh of Some e \<Rightarrow> mesh_collisionMask e
            | None \<Rightarrow> collisionMask (collider s))
           = spec_effectiveMask excludedMesh
               ((collider s)\<lparr>narrow := initialize env (position s) (velocity s)
                  (fl (CollisionsEpsilon env * 10)) (collider s)\<rparr>)"
    by (simp add: spec_effectiveMask_def split: option.splits)
  have c: "(case excludedMesh of
              Some e \<Rightarrow> (case surroundingMeshes e of Some l \<Rightarrow> l | None \<Rightarrow> scene)
            | None \<Rightarrow> scene) = spec_candidates excludedMesh scene"
    by (simp add: spec_candidates_def split: option.splits)
  have t: "spec_tested excludedMesh ((collider s)\<lparr>narrow := n\<rparr>)
             = spec_tested excludedMesh (collider s)" for n
    by (rule ext) (simp add: spec_tested_def spec_effectiveMask_def split: option.splits)
  show ?thesis
    unfolding narrowPhase_def Let_def m c
    by (simp add: meshLoop_calls t)
qed


lemma response_frame [simp]:
  "finalPosition (response env slideOnCollide s) = finalPosition s"
  "radius (collider (response env slideOnCollide s)) = radius (collider s)"
  "collisionMask (collider (response env slideOnCollide s)) = collisionMask (collider s)"
  by (simp_all add: response_def Let_def split: prod.splits)

lemma response_calls:
  "calls (response env slideOnCollide s)
     = calls s @ (if vec_x (velocity s) \<noteq> 0 \<or> vec_y (velocity s) \<noteq> 0 \<or> vec_z (velocity s) \<noteq> 0
                  then [GetResponse (position s) (velocity s) slideOnCollide] else [])"
  by (simp add: response_def Let_def split: prod.splits)




lemma startSweep_simps [simp]:
  "position (startSweep scratch p d c) = divideToRef p (radius c)"
  "velocity (startSweep scratch p d c) = divideToRef d (radius c)"
  "calls (startSweep scratch p d c) = []"
  "retry (collider (startSweep scratch p d c)) = 0"
  "radius (collider (startSweep scratch p d c)) = radius c"
  "collisionMask (collider (startSweep scratch p d c)) = collisionMask c"
  by (simp_all add: startSweep_def Let_def)


subsection \<open>The calls of a sweep iteration\<close>

lemma sweeps_simps [simp]:
  "sweeps [] = 0"
  "sweeps (c # cs) = (if is_Initialize c then Suc (sweeps cs) else sweeps cs)"
  by (simp_all add: sweeps_def)

lemma sweeps_append [simp]: "sweeps (xs @ ys) = sweeps xs + sweeps ys"
  by (simp add: sweeps_def)

lemma filter_CheckCollision_no_Initialize [simp]:
  "filter is_Initialize (map CheckCollision ms) = []"
  by (induction ms) simp_all

lemma filter_CheckCollision_no_OnNewPosition [simp]:
  "filter is_OnNewPosition (map CheckCollision ms) = []"
  by (induction ms) simp_all

lemma filter_CheckCollision_all [simp]:
  "filter is_CheckCollision (map CheckCollision ms) = map CheckCollision ms"
  by (induction ms) simp_all

lemma sweeps_narrowPhase [simp]:
  "sweeps (calls (narrowPhase env scene excludedMesh s)) = Suc (sweeps (calls s))"
  by (simp add: narrowPhase_calls) (simp add: sweeps_def)

lemma sweeps_response [simp]:
  "sweeps (calls (response env slideOnCollide s)) = sweeps (calls s)"
  by (simp add: response_calls)

lemma OnNewPosition_narrowPhase [simp]:
  "filter is_OnNewPosition (calls (narrowPhase env scene excludedMesh s))
     = filter is_OnNewPosition (calls s)"
  by (simp add: narrowPhase_calls)

lemma OnNewPosition_response [simp]:
  "filter is_OnNewPosition (calls (response env slideOnCollide s))
     = filter is_OnNewPosition (calls s)"
  by (simp add: response_calls)


lemma CheckCollision_response [simp]:
  "filter is_CheckCollision (calls (response env slideOnCollide s))
     = filter is_CheckCollision (calls s)"
  by (simp add: response_calls)

subsection \<open>The whole sweep\<close>

lemma collideWithWorld_exhausted:
  "maximumRetry \<le> retry (collider s) \<Longrightarrow>
     collideWithWorld env scene maximumRetry slideOnCollide excludedMesh s
       = s\<lparr>finalPosition := position s\<rparr>"
  by (simp add: collideWithWorld.simps)

lemma collideWithWorld_no_collision:
  assumes "retry (collider s) < maximumRetry"
    and "\<not> collisionFound (narrow (collider (narrowPhase env scene excludedMesh s)))"
  shows "collideWithWorld env scene maximumRetry slideOnCollide excludedMesh s
           = (narrowPhase env scene excludedMesh s)
               \<lparr>finalPosition := addToRef (position s) (velocity s)\<rparr>"
  using assms
  by (simp add: collideWithWorld.simps [of env scene maximumRetry slideOnCollide excludedMesh s]
        Let_def)

lemma collideWithWorld_at_rest:
  assumes "retry (collider s) < maximumRetry"
    and "collisionFound (narrow (collider (narrowPhase env scene excludedMesh s)))"
    and "length_v3 (velocity (response env slideOnCollide (narrowPhase env scene excludedMesh s)))
           \<le> fl (CollisionsEpsilon env * 10)"
  shows "collideWithWorld env scene maximumRetry slideOnCollide excludedMesh s
           = (response env slideOnCollide (narrowPhase env scene excludedMesh s))
               \<lparr>finalPosition :=
                  position (response env slideOnCollide (narrowPhase env scene excludedMesh s))\<rparr>"
  using assms
  by (simp add: collideWithWorld.simps [of env scene maximumRetry slideOnCollide excludedMesh s]
        Let_def)

lemma collideWithWorld_next:
  assumes "nextIteration env scene maximumRetry slideOnCollide excludedMesh s = Some s'"
  shows "collideWithWorld env scene maximumRetry slideOnCollide excludedMesh s
           = collideWithWorld env scene maximumRetry slideOnCollide excludedMesh s'"
  using assms
  by (simp add: collideWithWorld.simps [of env scene maximumRetry slideOnCollide excludedMesh s]
        nextIteration_def Let_def split: if_splits)

lemma nextIteration_None:
  "nextIteration env scene maximumRetry slideOnCollide excludedMesh s = None \<longleftrightarrow>
     maximumRetry \<le> retry (collider s)
     \<or> \<not> collisionFound (narrow (collider (narrowPhase env scene excludedMesh s)))
     \<or> length_v3 (velocity (response env slideOnCollide (narrowPhase env scene excludedMesh s)))
          \<le> fl (CollisionsEpsilon env * 10)"
  by (simp add: nextIteration_def Let_def)

lemma nextIteration_Some:
  assumes "nextIteration env scene maximumRetry slideOnCollide excludedMesh s = Some s'"
  shows "retry (collider s) < maximumRetry"
    and "collisionFound (narrow (collider (narrowPhase env scene excludedMesh s)))"
    and "s' = (response env slideOnCollide (narrowPhase env scene excludedMesh s))
               \<lparr>collider := (collider (response env slideOnCollide
                                (narrowPhase env scene excludedMesh s)))
                              \<lparr>retry := retry (collider s) + 1\<rparr>\<rparr>"
  using assms by (simp_all add: nextIteration_def Let_def split: if_splits)


lemma iteration_same_result:
  "iteration env scene maximumRetry slideOnCollide excludedMesh k s = Some t \<Longrightarrow>
     collideWithWorld env scene maximumRetry slideOnCollide excludedMesh s
       = collideWithWorld env scene maximumRetry slideOnCollide excludedMesh t"
  by (induction k arbitrary: s) (auto split: option.splits dest: collideWithWorld_next)

lemma sweep_induct [case_names iteration]:
  assumes "\<And>s. (\<And>s'. nextIteration env scene maximumRetry slideOnCollide excludedMesh s = Some s'
                    \<Longrightarrow> P s') \<Longrightarrow> P s"
  shows "P s"
proof (induction "nat (maximumRetry - retry (collider s))" arbitrary: s rule: less_induct)
  case less
  show ?case
  proof (rule assms)
    fix s'
    assume n: "nextIteration env scene maximumRetry slideOnCollide excludedMesh s = Some s'"
    have "retry (collider s') = retry (collider s) + 1" "retry (collider s) < maximumRetry"
      using nextIteration_Some [OF n] by simp_all
    then have "nat (maximumRetry - retry (collider s')) < nat (maximumRetry - retry (collider s))"
      by simp
    then show "P s'" by (rule less)
  qed
qed

lemma sweep_cases [case_names exhausted no_collision at_rest recurse]:
  obtains "maximumRetry \<le> retry (collider s)"
  | "retry (collider s) < maximumRetry"
    and "\<not> collisionFound (narrow (collider (narrowPhase env scene excludedMesh s)))"
  | "retry (collider s) < maximumRetry"
    and "collisionFound (narrow (collider (narrowPhase env scene excludedMesh s)))"
    and "length_v3 (velocity (response env slideOnCollide (narrowPhase env scene excludedMesh s)))
           \<le> fl (CollisionsEpsilon env * 10)"
  | s' where "nextIteration env scene maximumRetry slideOnCollide excludedMesh s = Some s'"
proof (cases "nextIteration env scene maximumRetry slideOnCollide excludedMesh s")
  case None
  show ?thesis
  proof (cases "maximumRetry \<le> retry (collider s)")
    case True
    then show ?thesis by (rule that(1))
  next
    case False
    with None that(2,3) show ?thesis
      by (auto simp: nextIteration_None)
  qed
next
  case (Some s')
  then show ?thesis by (rule that(4))
qed


lemma collideWithWorld_sweeps:
  "int (sweeps (calls (collideWithWorld env scene maximumRetry slideOnCollide excludedMesh s)))
     \<le> int (sweeps (calls s)) + max 0 (maximumRetry - retry (collider s))
   \<and> retry (collider s)
     \<le> retry (collider (collideWithWorld env scene maximumRetry slideOnCollide excludedMesh s))
   \<and> int (sweeps (calls (collideWithWorld env scene maximumRetry slideOnCollide excludedMesh s)))
       - int (sweeps (calls s)) - 1
     \<le> retry (collider (collideWithWorld env scene maximumRetry slideOnCollide excludedMesh s))
         - retry (collider s)
   \<and> retry (collider (collideWithWorld env scene maximumRetry slideOnCollide excludedMesh s))
         - retry (collider s)
     \<le> int (sweeps (calls (collideWithWorld env scene maximumRetry slideOnCollide excludedMesh s)))
       - int (sweeps (calls s))"
  (is "?P s")
proof (induction s rule: sweep_induct [where env = env and scene = scene
         and maximumRetry = maximumRetry and slideOnCollide = slideOnCollide
         and excludedMesh = excludedMesh])
  case (iteration s)
  show ?case
  proof (cases s rule: sweep_cases [where env = env and scene = scene
           and maximumRetry = maximumRetry and slideOnCollide = slideOnCollide
           and excludedMesh = excludedMesh])
    case exhausted
    then show ?thesis by (simp add: collideWithWorld_exhausted)
  next
    case no_collision
    then show ?thesis by (simp add: collideWithWorld_no_collision)
  next
    case at_rest
    then show ?thesis by (simp add: collideWithWorld_at_rest)
  next
    case (recurse s')
    note ih = iteration [OF recurse]
    have "sweeps (calls s') = Suc (sweeps (calls s))" "retry (collider s') = retry (collider s) + 1"
      "retry (collider s) < maximumRetry"
      using nextIteration_Some [OF recurse] by simp_all
    with ih show ?thesis
      by (simp add: collideWithWorld_next [OF recurse])
  qed
qed





lemma getNewPosition_zero_budget:
  "getNewPosition env scene scratch p d c 0 excludedMesh collisionIndex slideOnCollide
     = \<lparr>position = divideToRef p (radius c), velocity = divideToRef d (radius c),
        finalPosition = multiplyInPlace (divideToRef p (radius c)) (radius c),
        collider = c\<lparr>narrow := (narrow c)\<lparr>collidedMesh := None\<rparr>, retry := 0,
                     initialVelocity := divideToRef d (radius c),
                     initialPosition := divideToRef p (radius c)\<rparr>,
        calls = [OnNewPosition collisionIndex
                   (multiplyInPlace (divideToRef p (radius c)) (radius c)) None]\<rparr>"
  by (simp add: getNewPosition_def startSweep_def Let_def collideWithWorld_exhausted)

subsection \<open>The examples\<close>

lemma level_ground_simps:
  "touches level_ground p v \<longleftrightarrow>
     vec_y v < 0 \<and> (vec_y p - 1) / (- vec_y v) \<le> 1 \<and> 0 \<le> (vec_y p + 1) / (- vec_y v)"
  "responds level_ground e True p v =
     (Vector3 (vec_x p + contact_time p v * vec_x v) (vec_y p + contact_time p v * vec_y v + e)
        (vec_z p + contact_time p v * vec_z v),
      Vector3 ((1 - contact_time p v) * vec_x v) 0 ((1 - contact_time p v) * vec_z v))"
  "responds level_ground e False p v =
     (Vector3 (vec_x p + contact_time p v * vec_x v) (vec_y p + contact_time p v * vec_y v)
        (vec_z p + contact_time p v * vec_z v),
      Vector3 (contact_time p v * vec_x v) (contact_time p v * vec_y v)
        (contact_time p v * vec_z v))"
  by (simp_all add: level_ground_def Let_def)



lemmas example =
  getNewPosition_def startSweep_def Let_def narrowPhase_def response_def nextIteration_def
  scripted_def scripted_initialize_def scripted_checkCollision_def scripted_getResponse_def
  solid_def body_def divideToRef_def multiplyInPlace_def addToRef_def
  length_v3_def setAll_def collideWithWorld.simps

section \<open>The claims\<close>

text \<open>
  C1. The sweep always returns: \<open>collideWithWorld\<close> is a total function, its recursion
  measured by the retries that remain. The check of the budget comes first, so a sweep
  whose budget is used up returns its position at once; a recursive call is made only
  below the budget and after an increment of \<open>retry\<close> by one; and the collider is
  reset for at most \<open>maximumRetry\<close> sweep iterations in one resolution (none, when the
  budget is zero or negative).
\<close>

theorem sweep_stops_within_budget:
  "(maximumRetry \<le> retry (collider s) \<longrightarrow>
      collideWithWorld env scene maximumRetry slideOnCollide excludedMesh s
        = s\<lparr>finalPosition := position s\<rparr>)
   \<and> (\<forall>s'. nextIteration env scene maximumRetry slideOnCollide excludedMesh s = Some s' \<longrightarrow>
          retry (collider s') = retry (collider s) + 1 \<and> retry (collider s) < maximumRetry
          \<and> collideWithWorld env scene maximumRetry slideOnCollide excludedMesh s
              = collideWithWorld env scene maximumRetry slideOnCollide excludedMesh s')
   \<and> int (sweeps (calls (collideWithWorld env scene maximumRetry slideOnCollide excludedMesh s)))
     \<le> int (sweeps (calls s)) + max 0 (maximumRetry - retry (collider s))
   \<and> int (sweeps (calls (getNewPosition env scene scratch p d c maximumRetry excludedMesh
        collisionIndex slideOnCollide)))
     \<le> max 0 maximumRetry"
proof (intro conjI allI impI)
  fix s'
  assume n: "nextIteration env scene maximumRetry slideOnCollide excludedMesh s = Some s'"
  from nextIteration_Some [OF n]
  show "retry (collider s') = retry (collider s) + 1" "retry (collider s) < maximumRetry"
    by simp_all
  from n show "collideWithWorld env scene maximumRetry slideOnCollide excludedMesh s
              = collideWithWorld env scene maximumRetry slideOnCollide excludedMesh s'"
    by (rule collideWithWorld_next)
next
  assume "maximumRetry \<le> retry (collider s)"
  then show "collideWithWorld env scene maximumRetry slideOnCollide excludedMesh s
        = s\<lparr>finalPosition := position s\<rparr>"
    by (rule collideWithWorld_exhausted)
next
  show "int (sweeps (calls (collideWithWorld env scene maximumRetry slideOnCollide excludedMesh s)))
     \<le> int (sweeps (calls s)) + max 0 (maximumRetry - retry (collider s))"
    using collideWithWorld_sweeps [of env scene maximumRetry slideOnCollide excludedMesh s]
    by simp
next
  let ?s = "startSweep scratch p d c"
  have "int (sweeps (calls (collideWithWorld env scene maximumRetry slideOnCollide excludedMesh ?s)))
     \<le> int (sweeps (calls ?s)) + max 0 (maximumRetry - retry (collider ?s))"
    using collideWithWorld_sweeps [of env scene maximumRetry slideOnCollide excludedMesh ?s]
    by simp
  then show "int (sweeps (calls (getNewPosition env scene scratch p d c maximumRetry excludedMesh
        collisionIndex slideOnCollide)))
     \<le> max 0 maximumRetry"
    by (simp add: getNewPosition_def Let_def)
qed

theorem sweep_stops_within_budget_witness:
  "collideWithWorld (scripted (1/1024)) [solid level_ground] 0 True None
     (startSweep (Vector3 0 0 0) (Vector3 0 1 0) (Vector3 1 (- 1) 0) (body (Vector3 1 1 1)))
     = (startSweep (Vector3 0 0 0) (Vector3 0 1 0) (Vector3 1 (- 1) 0) (body (Vector3 1 1 1)))
         \<lparr>finalPosition := Vector3 0 1 0\<rparr>
   \<and> sweeps (calls (getNewPosition (scripted (1/1024)) [solid level_ground] (Vector3 0 0 0)
        (Vector3 0 1 0) (Vector3 1 (- 1) 0) (body (Vector3 1 1 1)) 2 None 7 True)) = 2
   \<and> sweeps (calls (getNewPosition (scripted (1/1024)) [solid level_ground] (Vector3 0 0 0)
        (Vector3 0 1 0) (Vector3 1 (- 1) 0) (body (Vector3 1 1 1)) 5 None 7 True)) = 2
   \<and> (\<exists>s'. nextIteration (scripted (1/1024)) [solid level_ground] 2 True None
           (startSweep (Vector3 0 0 0) (Vector3 0 1 0) (Vector3 1 (- 1) 0)
              (body (Vector3 1 1 1))) = Some s'
         \<and> retry (collider s') = 1)"
  using sweep_stops_within_budget [of 2
      "startSweep (Vector3 0 0 0) (Vector3 0 1 0) (Vector3 1 (- 1) 0) (body (Vector3 1 1 1))"
      "scripted (1/1024)" "[solid level_ground]" True None "Vector3 0 0 0" "Vector3 0 1 0"
      "Vector3 1 (- 1) 0" "body (Vector3 1 1 1)" 7]
    sweep_stops_within_budget [of 0
      "startSweep (Vector3 0 0 0) (Vector3 0 1 0) (Vector3 1 (- 1) 0) (body (Vector3 1 1 1))"
      "scripted (1/1024)" "[solid level_ground]" True None "Vector3 0 0 0" "Vector3 0 1 0"
      "Vector3 1 (- 1) 0" "body (Vector3 1 1 1)" 7]
  by (simp add: example level_ground_simps contact_time_def sweeps_def)

text \<open>
  C2. The claim fails in two ways. With \<open>maximumRetry = 0\<close> the body stays where it
  is, also in the empty scene. And the position is divided by the radius before the
  sweep and the result multiplied by it afterwards, in doubles: in the empty scene, for
  the position \<open>(1, 0, 0)\<close>, no displacement, the radius \<open>(49, 1, 1)\<close> and a budget
  of one, the final position is \<open>(0.9999999999999999, 0, 0)\<close>.
\<close>

theorem unobstructed_move_counterexample:
  "reports_no_collision (scripted (1/1024)) [] None
     (startSweep (Vector3 0 0 0) (Vector3 0 0 0) (Vector3 1 0 0) (body (Vector3 1 1 1)))
   \<and> finalPosition (getNewPosition (scripted (1/1024)) [] (Vector3 0 0 0)
        (Vector3 0 0 0) (Vector3 1 0 0) (body (Vector3 1 1 1)) 0 None 7 True) = Vector3 0 0 0
   \<and> addToRef (Vector3 0 0 0) (Vector3 1 0 0) = Vector3 1 0 0
   \<and> reports_no_collision (scripted (1/1024)) [] None
        (startSweep (Vector3 0 0 0) (Vector3 1 0 0) (Vector3 0 0 0) (body (Vector3 49 1 1)))
   \<and> finalPosition (getNewPosition (scripted (1/1024)) [] (Vector3 0 0 0)
        (Vector3 1 0 0) (Vector3 0 0 0) (body (Vector3 49 1 1)) 1 None 7 True)
     = Vector3 (9007199254740991 / 2 ^ 53) 0 0
   \<and> addToRef (Vector3 1 0 0) (Vector3 0 0 0) = Vector3 1 0 0"
proof -
  have "fl (fl (1/49) + 0) = fl (1/49)"
    by simp
  then show ?thesis
    using round_trip_49
    by (simp add: example reports_no_collision_def)
qed

text \<open>
  C2, amended. When the tests of the first sweep iteration report no collision and the
  budget is at least one, the final position is \<open>((p / r) + (d / r)) * r\<close>, each
  operation on each axis rounded, and the callback receives it with no collided mesh;
  for the radius \<open>(1, 1, 1)\<close> this is \<open>p + d\<close>, the sum of the doubles. With a
  budget of zero or less the final position is \<open>(p / r) * r\<close>.
\<close>

theorem unobstructed_move:
  assumes "reports_no_collision env scene excludedMesh (startSweep scratch p d c)"
  shows "(1 \<le> maximumRetry \<longrightarrow>
            finalPosition (getNewPosition env scene scratch p d c maximumRetry excludedMesh
              collisionIndex slideOnCollide)
              = multiplyInPlace
                  (addToRef (divideToRef p (radius c)) (divideToRef d (radius c))) (radius c)
          \<and> last (calls (getNewPosition env scene scratch p d c maximumRetry excludedMesh
              collisionIndex slideOnCollide))
              = OnNewPosition collisionIndex
                  (multiplyInPlace
                     (addToRef (divideToRef p (radius c)) (divideToRef d (radius c)))
                     (radius c)) None)
       \<and> (1 \<le> maximumRetry \<and> radius c = Vector3 1 1 1 \<and> doubles p \<and> doubles d \<longrightarrow>
            finalPosition (getNewPosition env scene scratch p d c maximumRetry excludedMesh
              collisionIndex slideOnCollide) = addToRef p d)
       \<and> (maximumRetry \<le> 0 \<longrightarrow>
            finalPosition (getNewPosition env scene scratch p d c maximumRetry excludedMesh
              collisionIndex slideOnCollide)
              = multiplyInPlace (divideToRef p (radius c)) (radius c))"
proof -
  let ?s = "startSweep scratch p d c"
  let ?n = "narrowPhase env scene excludedMesh ?s"
  have quiet: "\<not> collisionFound (narrow (collider ?n))"
    and mesh: "collidedMesh (narrow (collider ?n)) = None"
    using assms by (simp_all add: reports_no_collision_def) (simp add: startSweep_def Let_def)
  have one: "collideWithWorld env scene maximumRetry slideOnCollide excludedMesh ?s
               = ?n\<lparr>finalPosition := addToRef (position ?s) (velocity ?s)\<rparr>"
    if "1 \<le> maximumRetry"
    using that by (intro collideWithWorld_no_collision quiet) simp
  have moved: "finalPosition (getNewPosition env scene scratch p d c maximumRetry excludedMesh
              collisionIndex slideOnCollide)
              = multiplyInPlace
                  (addToRef (divideToRef p (radius c)) (divideToRef d (radius c))) (radius c)"
    and told: "last (calls (getNewPosition env scene scratch p d c maximumRetry excludedMesh
              collisionIndex slideOnCollide))
              = OnNewPosition collisionIndex
                  (multiplyInPlace
                     (addToRef (divideToRef p (radius c)) (divideToRef d (radius c)))
                     (radius c)) None"
    if "1 \<le> maximumRetry"
    using one [OF that] mesh by (simp_all add: getNewPosition_def Let_def)
  have unit: "finalPosition (getNewPosition env scene scratch p d c maximumRetry excludedMesh
              collisionIndex slideOnCollide) = addToRef p d"
    if "1 \<le> maximumRetry" "radius c = Vector3 1 1 1" "doubles p" "doubles d"
    using moved [OF that(1)] that(2-4)
    by (simp add: divideToRef_unit multiplyInPlace_addToRef_unit)
  have still: "finalPosition (getNewPosition env scene scratch p d c maximumRetry excludedMesh
              collisionIndex slideOnCollide)
              = multiplyInPlace (divideToRef p (radius c)) (radius c)"
    if "maximumRetry \<le> 0"
    using that by (simp add: getNewPosition_def Let_def collideWithWorld_exhausted)
  from moved told unit still show ?thesis
    by blast
qed

theorem unobstructed_move_witness:
  "reports_no_collision (scripted (1/1024)) [solid level_ground] None
     (startSweep (Vector3 0 0 0) (Vector3 0 5 0) (Vector3 1 0 0) (body (Vector3 1 1 1)))
   \<and> (1::int) \<le> 3 \<and> radius (body (Vector3 1 1 1)) = Vector3 1 1 1
   \<and> doubles (Vector3 0 5 0) \<and> doubles (Vector3 1 0 0)
   \<and> finalPosition (getNewPosition (scripted (1/1024)) [solid level_ground] (Vector3 0 0 0)
        (Vector3 0 5 0) (Vector3 1 0 0) (body (Vector3 1 1 1)) 3 None 7 True) = Vector3 1 5 0
   \<and> last (calls (getNewPosition (scripted (1/1024)) [solid level_ground] (Vector3 0 0 0)
        (Vector3 0 5 0) (Vector3 1 0 0) (body (Vector3 1 1 1)) 3 None 7 True))
     = OnNewPosition 7 (Vector3 1 5 0) None"
proof -
  have h: "reports_no_collision (scripted (1/1024)) [solid level_ground] None
     (startSweep (Vector3 0 0 0) (Vector3 0 5 0) (Vector3 1 0 0) (body (Vector3 1 1 1)))"
    by (simp add: example reports_no_collision_def level_ground_simps)
  have u: "(1::int) \<le> 3" "radius (body (Vector3 1 1 1)) = Vector3 1 1 1"
    "doubles (Vector3 0 5 0)" "doubles (Vector3 1 0 0)"
    by (simp_all add: body_def doubles_def)
  have v: "multiplyInPlace (addToRef (divideToRef (Vector3 0 5 0) (Vector3 1 1 1))
             (divideToRef (Vector3 1 0 0) (Vector3 1 1 1))) (Vector3 1 1 1) = Vector3 1 5 0"
    by (simp add: multiplyInPlace_def addToRef_def divideToRef_def)
  from unobstructed_move [OF h, where maximumRetry = 3 and collisionIndex = 7
      and slideOnCollide = True] h u v
  show ?thesis by simp
qed

text \<open>
  C3. The claim fails for a radius that is not a power of two: the position is divided
  by the radius and multiplied by it again, in doubles. With \<open>maximumRetry = 0\<close>, the
  position \<open>(1, 0, 0)\<close> and the radius \<open>(49, 1, 1)\<close> the final position is
  \<open>(0.9999999999999999, 0, 0)\<close>.
\<close>

theorem zero_budget_round_trip_counterexample:
  "finalPosition (getNewPosition (scripted (1/1024)) [] (Vector3 0 0 0) (Vector3 1 0 0)
      (Vector3 0 0 0) (body (Vector3 49 1 1)) 0 None 7 True)
     = Vector3 (9007199254740991 / 2 ^ 53) 0 0
   \<and> finalPosition (getNewPosition (scripted (1/1024)) [] (Vector3 0 0 0) (Vector3 1 0 0)
      (Vector3 0 0 0) (body (Vector3 49 1 1)) 0 None 7 True) \<noteq> Vector3 1 0 0"
  by (simp add: getNewPosition_zero_budget body_def round_trip_49_vec)

text \<open>
  C3, amended. With \<open>maximumRetry = 0\<close> the sweep applies no displacement: it returns
  the scaled position, and the final position, as left in the scratch vector and as
  handed to the callback, is \<open>(p / r) * r\<close>, each operation on each axis rounded,
  whatever the displacement, the scene, the collaborators and the excluded mesh are. For
  the radius \<open>(1, 1, 1)\<close> it is the input position.
\<close>

theorem zero_budget_round_trip:
  "finalPosition (getNewPosition env scene scratch p d c 0 excludedMesh collisionIndex
      slideOnCollide) = multiplyInPlace (divideToRef p (radius c)) (radius c)
   \<and> finalPosition (collideWithWorld env scene 0 slideOnCollide excludedMesh
        (startSweep scratch p d c)) = divideToRef p (radius c)
   \<and> last (calls (getNewPosition env scene scratch p d c 0 excludedMesh collisionIndex
        slideOnCollide))
     = OnNewPosition collisionIndex (multiplyInPlace (divideToRef p (radius c)) (radius c)) None
   \<and> (radius c = Vector3 1 1 1 \<and> doubles p \<longrightarrow>
        finalPosition (getNewPosition env scene scratch p d c 0 excludedMesh collisionIndex
          slideOnCollide) = p)"
  by (simp add: getNewPosition_zero_budget collideWithWorld_exhausted divideToRef_unit
        multiplyInPlace_unit)

theorem zero_budget_round_trip_witness:
  "radius (body (Vector3 1 1 1)) = Vector3 1 1 1 \<and> doubles (Vector3 0 5 0)
   \<and> finalPosition (getNewPosition (scripted (1/1024)) [solid level_ground] (Vector3 0 0 0)
        (Vector3 0 5 0) (Vector3 0 (- 10) 0) (body (Vector3 1 1 1)) 0 None 7 True)
     = Vector3 0 5 0"
proof -
  have h: "radius (body (Vector3 1 1 1)) = Vector3 1 1 1 \<and> doubles (Vector3 0 5 0)"
    by (simp add: body_def doubles_def)
  from zero_budget_round_trip [of "scripted (1/1024)" "[solid level_ground]" "Vector3 0 0 0"
      "Vector3 0 5 0" "Vector3 0 (- 10) 0" "body (Vector3 1 1 1)" None 7 True] h
  show ?thesis by blast
qed


text \<open>
  C5. When iteration \<open>k\<close> of a sweep, below the budget, finds no collision, the sweep
  ends with the position and the velocity that this iteration started from added up:
  the velocity as the earlier responses left it, not the one the sweep began with.
\<close>

theorem no_collision_adds_current_velocity:
  assumes "iteration env scene maximumRetry slideOnCollide excludedMesh k s = Some t"
    and "retry (collider t) < maximumRetry"
    and "\<not> collisionFound (narrow (collider (narrowPhase env scene excludedMesh t)))"
  shows "finalPosition (collideWithWorld env scene maximumRetry slideOnCollide excludedMesh s)
           = addToRef (position t) (velocity t)"
  by (simp add: iteration_same_result [OF assms(1)] collideWithWorld_no_collision [OF assms(2,3)])

theorem no_collision_adds_current_velocity_witness:
  "\<exists>t. iteration (scripted (1/1024)) [solid level_ground] 2 True None 1
          (startSweep (Vector3 0 0 0) (Vector3 0 1 0) (Vector3 1 (- 1) 0)
             (body (Vector3 1 1 1))) = Some t
     \<and> retry (collider t) < 2
     \<and> \<not> collisionFound (narrow (collider
           (narrowPhase (scripted (1/1024)) [solid level_ground] None t)))
     \<and> velocity t = Vector3 1 0 0
     \<and> finalPosition (collideWithWorld (scripted (1/1024)) [solid level_ground] 2 True None
          (startSweep (Vector3 0 0 0) (Vector3 0 1 0) (Vector3 1 (- 1) 0)
             (body (Vector3 1 1 1))))
       = addToRef (position t) (velocity t)
     \<and> addToRef (position t) (velocity t) = Vector3 1 (517/512) 0
     \<and> addToRef (divideToRef (Vector3 0 1 0) (Vector3 1 1 1))
          (divideToRef (Vector3 1 (- 1) 0) (Vector3 1 1 1)) = Vector3 1 0 0"
proof -
  let ?s = "startSweep (Vector3 0 0 0) (Vector3 0 1 0) (Vector3 1 (- 1) 0)
              (body (Vector3 1 1 1))"
  obtain t where t: "iteration (scripted (1/1024)) [solid level_ground] 2 True None 1 ?s = Some t"
    by (simp add: example level_ground_simps contact_time_def)
  have h: "retry (collider t) < 2"
    "\<not> collisionFound (narrow (collider
         (narrowPhase (scripted (1/1024)) [solid level_ground] None t)))"
    "velocity t = Vector3 1 0 0" "position t = Vector3 0 (517/512) 0"
    using t by (auto simp: example level_ground_simps contact_time_def)
  from no_collision_adds_current_velocity [OF t h(1,2)] t h show ?thesis
    by (simp add: addToRef_def divideToRef_def)
qed











text \<open>
  C10. With \<open>maximumRetry = 0\<close> the callback is the only call made: no mesh is
  handed to the narrow phase, in any scene, and the callback receives no collided mesh.
\<close>

theorem zero_budget_no_narrow_phase:
  "calls (getNewPosition env scene scratch p d c 0 excludedMesh collisionIndex slideOnCollide)
     = [OnNewPosition collisionIndex
          (multiplyInPlace (divideToRef p (radius c)) (radius c)) None]
   \<and> filter is_CheckCollision
       (calls (getNewPosition env scene scratch p d c 0 excludedMesh collisionIndex
          slideOnCollide)) = []"
  by (simp add: getNewPosition_zero_budget)

end
